theory Spec2Isabelle
  imports Main "HOL-Library.Signed_Division"
begin

section \<open>Enumerations and plain types of imagebuf.h\<close>

text \<open>
  \<^verbatim>\<open>enum IBStorage\<close> and \<^verbatim>\<open>enum WrapMode\<close> of class ImageBuf, in the order of the header.
  The last enumerator of WrapMode is written \<^verbatim>\<open>_WrapLast\<close> in the header.
\<close>

datatype IBStorage = UNINITIALIZED | LOCALBUFFER | APPBUFFER | IMAGECACHE

datatype WrapMode = WrapDefault | WrapBlack | WrapClamp | WrapPeriodic | WrapMirror | WrapLast

text \<open>
  A \<^verbatim>\<open>char*\<close> / \<^verbatim>\<open>void*\<close> is a byte address, \<open>0\<close> the null pointer; an
  \<^verbatim>\<open>ImageCacheTile*\<close> is an optional tile handle (\<open>None\<close> the null pointer).
  A \<^verbatim>\<open>TypeDesc\<close> (and the \<^verbatim>\<open>unsigned char m_pixeltype\<close> that stores its base type) is
  an opaque tag of which only equality is used. C++ \<^verbatim>\<open>int\<close> and \<^verbatim>\<open>stride_t\<close> values are
  mathematical integers: signed overflow is undefined behaviour in C++ and lies outside
  the model.
\<close>

type_synonym addr = int
type_synonym tile = nat
type_synonym TypeDesc = nat

text \<open>
  The part of an ImageBuf that the header's inline code and documentation refer to: the
  storage kind, the fields of \<^verbatim>\<open>spec()\<close> that give the pixel data window, the channel count
  and the pixel data type, whether the image is deep, and the pixel values by
  coordinate and channel \<open>(x, y, z, c)\<close>.
\<close>

record 'v ImageBuf =
  storage :: IBStorage
  spec_x :: int
  spec_y :: int
  spec_z :: int
  spec_width :: int
  spec_height :: int
  spec_depth :: int
  spec_nchannels :: int
  spec_format :: TypeDesc
  spec_deep :: bool
  pixels :: "int \<times> int \<times> int \<times> int \<Rightarrow> 'v"

section \<open>ImageBuf::IteratorBase\<close>

text \<open>
  The data members of IteratorBase, in the order of their declaration. \<^verbatim>\<open>m_ib\<close> is a
  pointer to the const ImageBuf; the model holds the ImageBuf pointed to.
\<close>

record 'v IteratorBase =
  m_ib :: "'v ImageBuf"
  m_valid :: bool
  m_exists :: bool
  m_deep :: bool
  m_localpixels :: bool
  m_img_xbegin :: int
  m_img_xend :: int
  m_img_ybegin :: int
  m_img_yend :: int
  m_img_zbegin :: int
  m_img_zend :: int
  m_rng_xbegin :: int
  m_rng_xend :: int
  m_rng_ybegin :: int
  m_rng_yend :: int
  m_rng_zbegin :: int
  m_rng_zend :: int
  m_x :: int
  m_y :: int
  m_z :: int
  m_tile :: "tile option"
  m_tilexbegin :: int
  m_tileybegin :: int
  m_tilezbegin :: int
  m_tilexend :: int
  m_nchannels :: int
  m_pixel_stride :: int
  m_proxydata :: addr
  m_wrap :: WrapMode
  m_readerror :: bool
  m_pixeltype :: nat

text \<open>
  The functions that the inline code of IteratorBase calls and that the header only
  declares (\<^verbatim>\<open>OIIO_API\<close> member functions \<^verbatim>\<open>pos\<close> and \<^verbatim>\<open>pos_xincr_local_past_end\<close>,
  and \<^verbatim>\<open>ImageBuf::retile\<close>) are parameters of the model. \<^verbatim>\<open>retile\<close> takes the buffer,
  \<open>x y z\<close>, the values of its six reference parameters \<^verbatim>\<open>tile, tilexbegin, tileybegin,
  tilezbegin, tilexend, haderr\<close>, then \<^verbatim>\<open>exists\<close> and \<^verbatim>\<open>wrap\<close>; it returns the pixel
  pointer and the new values of the six reference parameters.
\<close>

record 'v IteratorBase_api =
  pos :: "int \<Rightarrow> int \<Rightarrow> int \<Rightarrow> 'v IteratorBase \<Rightarrow> 'v IteratorBase"
  pos_xincr_local_past_end :: "'v IteratorBase \<Rightarrow> 'v IteratorBase"
  retile :: "'v ImageBuf \<Rightarrow> int \<Rightarrow> int \<Rightarrow> int \<Rightarrow> tile option \<Rightarrow> int \<Rightarrow> int \<Rightarrow> int \<Rightarrow> int
             \<Rightarrow> bool \<Rightarrow> bool \<Rightarrow> WrapMode
             \<Rightarrow> addr \<times> tile option \<times> int \<times> int \<times> int \<times> int \<times> bool"

text \<open>
  \<^verbatim>\<open>bool valid(int x_, int y_, int z_)\<close>: inside the iteration range. The overloads
  without arguments, \<^verbatim>\<open>valid()\<close> and \<^verbatim>\<open>exists()\<close>, return the members and are the record
  fields \<open>m_valid\<close> and \<open>m_exists\<close>; the overloads with coordinates are named
  \<open>valid_at\<close> and \<open>exists_at\<close>.
\<close>

definition valid_at :: "'v IteratorBase \<Rightarrow> int \<Rightarrow> int \<Rightarrow> int \<Rightarrow> bool" where
  "valid_at it x' y' z' =
     (x' \<ge> m_rng_xbegin it \<and> x' < m_rng_xend it \<and> y' \<ge> m_rng_ybegin it
      \<and> y' < m_rng_yend it \<and> z' \<ge> m_rng_zbegin it \<and> z' < m_rng_zend it)"

text \<open>\<^verbatim>\<open>bool exists(int x_, int y_, int z_)\<close>: inside the data window.\<close>

definition exists_at :: "'v IteratorBase \<Rightarrow> int \<Rightarrow> int \<Rightarrow> int \<Rightarrow> bool" where
  "exists_at it x' y' z' =
     (x' \<ge> m_img_xbegin it \<and> x' < m_img_xend it \<and> y' \<ge> m_img_ybegin it
      \<and> y' < m_img_yend it \<and> z' \<ge> m_img_zbegin it \<and> z' < m_img_zend it)"

text \<open>\<^verbatim>\<open>bool done() const\<close>, named \<open>iter_done\<close> (\<open>done\<close> is a keyword of Isar).\<close>

definition iter_done :: "'v IteratorBase \<Rightarrow> bool" where
  "iter_done it =
     (m_valid it = False \<and> m_x it = m_rng_xbegin it
      \<and> m_y it = m_rng_ybegin it \<and> m_z it = m_rng_zend it)"

text \<open>
  The call \<^verbatim>\<open>m_ib->retile(m_x, m_y, m_z, m_tile, m_tilexbegin, m_tileybegin, m_tilezbegin,
  m_tilexend, m_readerror, e, m_wrap)\<close> with its result assigned to \<^verbatim>\<open>m_proxydata\<close>: the
  tile members and \<^verbatim>\<open>m_readerror\<close> are passed by reference, \<^verbatim>\<open>e\<close> by value.
\<close>

definition call_retile ::
  "('v ImageBuf \<Rightarrow> int \<Rightarrow> int \<Rightarrow> int \<Rightarrow> tile option \<Rightarrow> int \<Rightarrow> int \<Rightarrow> int \<Rightarrow> int
     \<Rightarrow> bool \<Rightarrow> bool \<Rightarrow> WrapMode
     \<Rightarrow> addr \<times> tile option \<times> int \<times> int \<times> int \<times> int \<times> bool)
   \<Rightarrow> bool \<Rightarrow> 'v IteratorBase \<Rightarrow> 'v IteratorBase" where
  "call_retile rt e it =
     (case rt (m_ib it) (m_x it) (m_y it) (m_z it) (m_tile it)
              (m_tilexbegin it) (m_tileybegin it) (m_tilezbegin it)
              (m_tilexend it) (m_readerror it) e (m_wrap it) of
        (p, t, txb, tyb, tzb, txe, err) \<Rightarrow>
          it\<lparr>m_proxydata := p, m_tile := t, m_tilexbegin := txb,
             m_tileybegin := tyb, m_tilezbegin := tzb, m_tilexend := txe,
             m_readerror := err\<rparr>)"

text \<open>
  \<^verbatim>\<open>void pos_xincr()\<close>, called after \<^verbatim>\<open>m_x\<close> was incremented. The two
  \<^verbatim>\<open>OIIO_DASSERT\<close> lines are debug-build assertions and compute nothing;
  \<^verbatim>\<open>OIIO_UNLIKELY\<close> is a branch-prediction hint.
\<close>

definition pos_xincr :: "'v IteratorBase_api \<Rightarrow> 'v IteratorBase \<Rightarrow> 'v IteratorBase" where
  "pos_xincr A it =
     (if m_localpixels it then
        (let it1 = it\<lparr>m_proxydata := m_proxydata it + m_pixel_stride it\<rparr>
         in if m_x it1 \<ge> m_img_xend it1 then pos_xincr_local_past_end A it1 else it1)
      else if \<not> m_deep it then
        (let it1 = it\<lparr>m_proxydata := m_proxydata it + m_pixel_stride it\<rparr>;
             e = (m_x it1 < m_img_xend it1)
         in if \<not> (e \<and> m_x it1 < m_tilexend it1 \<and> m_tile it1 \<noteq> None) then
              (call_retile (retile A) e it1)\<lparr>m_exists := e\<rparr>
            else it1)
      else it)"

text \<open>\<^verbatim>\<open>void operator++()\<close>, named \<open>operator_inc\<close>.\<close>

definition operator_inc :: "'v IteratorBase_api \<Rightarrow> 'v IteratorBase \<Rightarrow> 'v IteratorBase" where
  "operator_inc A it =
     (let it1 = it\<lparr>m_x := m_x it + 1\<rparr> in
      if m_x it1 < m_rng_xend it1 then
        (if m_exists it1 then pos_xincr A it1
         else pos A (m_x it1) (m_y it1) (m_z it1) it1)
      else
        (let it2 = it1\<lparr>m_x := m_rng_xbegin it1\<rparr>;
             it3 = it2\<lparr>m_y := m_y it2 + 1\<rparr> in
         if m_y it3 \<ge> m_rng_yend it3 then
           (let it4 = it3\<lparr>m_y := m_rng_ybegin it3\<rparr>;
                it5 = it4\<lparr>m_z := m_z it4 + 1\<rparr> in
            if m_z it5 \<ge> m_rng_zend it5 then it5\<lparr>m_valid := False\<rparr>
            else pos A (m_x it5) (m_y it5) (m_z it5) it5)
         else pos A (m_x it3) (m_y it3) (m_z it3) it3))"


section \<open>Walking an iteration range\<close>

text \<open>Two iterators have the same iteration range.\<close>

definition same_range :: "'v IteratorBase \<Rightarrow> 'v IteratorBase \<Rightarrow> bool" where
  "same_range it' it =
     (m_rng_xbegin it' = m_rng_xbegin it \<and> m_rng_xend it' = m_rng_xend it
      \<and> m_rng_ybegin it' = m_rng_ybegin it \<and> m_rng_yend it' = m_rng_yend it
      \<and> m_rng_zbegin it' = m_rng_zbegin it \<and> m_rng_zend it' = m_rng_zend it)"

text \<open>
  What the walk over a range needs of the two declared-only member functions, as the
  header and the spec describe them. \<^verbatim>\<open>pos\<close> ("Explicitly point the iterator. This results
  in an invalid iterator if outside the previously-designated region"; in the spec,
  "absolute repositioning; recomputes valid/exists against range and data window") leaves
  the iterator at the coordinates it is given, with \<^verbatim>\<open>m_valid\<close> recomputed against the
  range, and does not change the range. \<^verbatim>\<open>pos_xincr_local_past_end\<close> ("Helper for pos_xincr
  for when we go off the end of the row") changes neither position, nor validity, nor range.
\<close>

definition repositions :: "'v IteratorBase_api \<Rightarrow> bool" where
  "repositions A =
     ((\<forall>x' y' z' it. same_range (pos A x' y' z' it) it
          \<and> m_x (pos A x' y' z' it) = x' \<and> m_y (pos A x' y' z' it) = y'
          \<and> m_z (pos A x' y' z' it) = z'
          \<and> m_valid (pos A x' y' z' it) = valid_at it x' y' z')
      \<and> (\<forall>it. same_range (pos_xincr_local_past_end A it) it
          \<and> m_x (pos_xincr_local_past_end A it) = m_x it
          \<and> m_y (pos_xincr_local_past_end A it) = m_y it
          \<and> m_z (pos_xincr_local_past_end A it) = m_z it
          \<and> m_valid (pos_xincr_local_past_end A it) = m_valid it))"

text \<open>The number of pixels of the iteration range.\<close>

definition range_pixels :: "'v IteratorBase \<Rightarrow> int" where
  "range_pixels it =
     (m_rng_xend it - m_rng_xbegin it) * (m_rng_yend it - m_rng_ybegin it)
       * (m_rng_zend it - m_rng_zbegin it)"

text \<open>
  The number of pixels of the range that come after the current one, in the order of
  iteration (x fastest, then y, then z).
\<close>

definition remaining :: "'v IteratorBase \<Rightarrow> int" where
  "remaining it =
     (m_rng_zend it - 1 - m_z it)
        * ((m_rng_xend it - m_rng_xbegin it) * (m_rng_yend it - m_rng_ybegin it))
     + (m_rng_yend it - 1 - m_y it) * (m_rng_xend it - m_rng_xbegin it)
     + (m_rng_xend it - 1 - m_x it)"

text \<open>The iterator is valid and stands on a pixel of its range.\<close>

definition on_pixel :: "'v IteratorBase \<Rightarrow> bool" where
  "on_pixel it = (m_valid it \<and> valid_at it (m_x it) (m_y it) (m_z it))"

text \<open>The iterator is valid and stands on the first pixel of a range that is not empty.\<close>

definition at_first_pixel :: "'v IteratorBase \<Rightarrow> bool" where
  "at_first_pixel it =
     (m_valid it \<and> m_x it = m_rng_xbegin it \<and> m_y it = m_rng_ybegin it
      \<and> m_z it = m_rng_zbegin it \<and> m_rng_xbegin it < m_rng_xend it
      \<and> m_rng_ybegin it < m_rng_yend it \<and> m_rng_zbegin it < m_rng_zend it)"

text \<open>
  Modelled from the spec: \<^verbatim>\<open>IteratorBase::pos\<close> and
  \<^verbatim>\<open>IteratorBase::pos_xincr_local_past_end\<close>, which imagebuf.h declares and does not define.
  The spec has \<^verbatim>\<open>pos(x,y,z)\<close> as "absolute repositioning; recomputes valid/exists against
  range and data window respectively, and -- if cache-backed -- re-acquires the owning
  tile", and going off the local buffer's right edge as a "bounds recompute". The address
  of the pixel in local memory (after the wrap mode has been applied, or of the shared
  black pixel) is the parameter \<open>local_proxy\<close>.
\<close>

definition spec_pos ::
  "('v IteratorBase \<Rightarrow> addr)
   \<Rightarrow> ('v ImageBuf \<Rightarrow> int \<Rightarrow> int \<Rightarrow> int \<Rightarrow> tile option \<Rightarrow> int \<Rightarrow> int \<Rightarrow> int \<Rightarrow> int
        \<Rightarrow> bool \<Rightarrow> bool \<Rightarrow> WrapMode
        \<Rightarrow> addr \<times> tile option \<times> int \<times> int \<times> int \<times> int \<times> bool)
   \<Rightarrow> int \<Rightarrow> int \<Rightarrow> int \<Rightarrow> 'v IteratorBase \<Rightarrow> 'v IteratorBase" where
  "spec_pos local_proxy rt x' y' z' it =
     (let v = valid_at it x' y' z';
          e = exists_at it x' y' z';
          it1 = it\<lparr>m_x := x', m_y := y', m_z := z', m_valid := v, m_exists := e\<rparr>
      in if m_localpixels it then it1\<lparr>m_proxydata := local_proxy it1\<rparr>
         else if \<not> m_deep it then call_retile rt e it1
         else it1)"

definition spec_pos_xincr_local_past_end ::
  "('v IteratorBase \<Rightarrow> addr) \<Rightarrow> 'v IteratorBase \<Rightarrow> 'v IteratorBase" where
  "spec_pos_xincr_local_past_end local_proxy it =
     (let it1 = it\<lparr>m_exists := exists_at it (m_x it) (m_y it) (m_z it)\<rparr>
      in it1\<lparr>m_proxydata := local_proxy it1\<rparr>)"

definition spec_api ::
  "('v IteratorBase \<Rightarrow> addr)
   \<Rightarrow> ('v ImageBuf \<Rightarrow> int \<Rightarrow> int \<Rightarrow> int \<Rightarrow> tile option \<Rightarrow> int \<Rightarrow> int \<Rightarrow> int \<Rightarrow> int
        \<Rightarrow> bool \<Rightarrow> bool \<Rightarrow> WrapMode
        \<Rightarrow> addr \<times> tile option \<times> int \<times> int \<times> int \<times> int \<times> bool)
   \<Rightarrow> 'v IteratorBase_api" where
  "spec_api local_proxy rt =
     \<lparr>pos = spec_pos local_proxy rt,
      pos_xincr_local_past_end = spec_pos_xincr_local_past_end local_proxy,
      retile = rt\<rparr>"

subsection \<open>A 4 x 2 image and an iterator over it\<close>

text \<open>
  A one-channel image of 4 x 2 pixels in local memory, 4 bytes per pixel, rows contiguous,
  with its data window at the origin, and an iterator over the whole of it that stands on
  the first pixel. The cache is not involved: the retile stand-in returns what it is given.
\<close>

definition image_4x2 :: "int ImageBuf" where
  "image_4x2 =
     \<lparr>storage = LOCALBUFFER, spec_x = 0, spec_y = 0, spec_z = 0,
      spec_width = 4, spec_height = 2, spec_depth = 1, spec_nchannels = 1,
      spec_format = 1, spec_deep = False, pixels = (\<lambda>k. 0)\<rparr>"

definition iter_4x2 :: "int IteratorBase" where
  "iter_4x2 =
     \<lparr>m_ib = image_4x2, m_valid = True, m_exists = True, m_deep = False,
      m_localpixels = True,
      m_img_xbegin = 0, m_img_xend = 4, m_img_ybegin = 0, m_img_yend = 2,
      m_img_zbegin = 0, m_img_zend = 1,
      m_rng_xbegin = 0, m_rng_xend = 4, m_rng_ybegin = 0, m_rng_yend = 2,
      m_rng_zbegin = 0, m_rng_zend = 1,
      m_x = 0, m_y = 0, m_z = 0, m_tile = None,
      m_tilexbegin = 0, m_tileybegin = 0, m_tilezbegin = 0, m_tilexend = 0,
      m_nchannels = 1, m_pixel_stride = 4, m_proxydata = 4096,
      m_wrap = WrapBlack, m_readerror = False, m_pixeltype = 1\<rparr>"

definition api_4x2 :: "int IteratorBase_api" where
  "api_4x2 =
     spec_api
       (\<lambda>it. if m_exists it then 4096 + 4 * (m_x it + 4 * m_y it) else 0)
       (\<lambda>ib x' y' z' t txb tyb tzb txe err e w. (0, t, txb, tyb, tzb, txe, err))"

subsection \<open>A deep and a cache-backed variant of the iterator\<close>

text \<open>
  The same iterator over a deep image without local pixel memory, and over a cache-backed
  image of which it holds tile 1, covering x in [0,2).
\<close>

definition iter_deep_4x2 :: "int IteratorBase" where
  "iter_deep_4x2 =
     iter_4x2\<lparr>m_ib := image_4x2\<lparr>spec_deep := True\<rparr>, m_deep := True, m_localpixels := False\<rparr>"

definition iter_cached_4x2 :: "int IteratorBase" where
  "iter_cached_4x2 =
     iter_4x2\<lparr>m_ib := image_4x2\<lparr>storage := IMAGECACHE\<rparr>, m_localpixels := False,
              m_tile := Some 1, m_tilexend := 2\<rparr>"

section \<open>ImageBuf::setpixel by linear index\<close>

text \<open>
  \<^verbatim>\<open>void setpixel(int x, int y, cspan<float> pixel) { setpixel(x, y, 0, pixel); }\<close>
  The four-coordinate \<^verbatim>\<open>setpixel(x, y, z, pixel)\<close> is declared only; it is the parameter
  \<open>setpixel_xyz\<close>, a function from the buffer to the buffer after the call.
\<close>

definition setpixel_xy ::
  "(int \<Rightarrow> int \<Rightarrow> int \<Rightarrow> 'p \<Rightarrow> 'v ImageBuf \<Rightarrow> 'v ImageBuf)
   \<Rightarrow> int \<Rightarrow> int \<Rightarrow> 'p \<Rightarrow> 'v ImageBuf \<Rightarrow> 'v ImageBuf" where
  "setpixel_xy setpixel_xyz x' y' pixel ib = setpixel_xyz x' y' 0 pixel ib"

text \<open>
  \<^verbatim>\<open>void setpixel(int i, cspan<float> pixel)
  { setpixel(spec().x + (i % spec().width), spec().y + (i / spec().width), pixel); }\<close>
  C++ \<^verbatim>\<open>%\<close> and \<^verbatim>\<open>/\<close> on \<^verbatim>\<open>int\<close> truncate towards zero (\<open>smod\<close>, \<open>sdiv\<close>); with a
  zero divisor the behaviour is undefined, which the model returns as \<open>None\<close>.
\<close>

definition setpixel_i ::
  "(int \<Rightarrow> int \<Rightarrow> int \<Rightarrow> 'p \<Rightarrow> 'v ImageBuf \<Rightarrow> 'v ImageBuf)
   \<Rightarrow> int \<Rightarrow> 'p \<Rightarrow> 'v ImageBuf \<Rightarrow> 'v ImageBuf option" where
  "setpixel_i setpixel_xyz i pixel ib =
     (if spec_width ib = 0 then None
      else Some (setpixel_xy setpixel_xyz
                   (spec_x ib + (i smod spec_width ib))
                   (spec_y ib + (i sdiv spec_width ib)) pixel ib))"

text \<open>
  A stand-in for the four-coordinate \<^verbatim>\<open>setpixel\<close>, for running the overloads: it stores
  the value in channel 0 of the pixel it is given, wherever that is.
\<close>

definition store_channel0 :: "int \<Rightarrow> int \<Rightarrow> int \<Rightarrow> 'v \<Rightarrow> 'v ImageBuf \<Rightarrow> 'v ImageBuf" where
  "store_channel0 x' y' z' v ib = ib\<lparr>pixels := (pixels ib)((x', y', z', 0) := v)\<rparr>"

text \<open>
  A default-constructed ImageBuf ("The storage type of a default-constructed ImageBuf is
  \<^verbatim>\<open>IBStorage::UNINITIALIZED\<close>"): it represents no image, and its spec has no pixels, with
  width, height, depth and channel count 0.
\<close>

definition image_default :: "int ImageBuf" where
  "image_default =
     \<lparr>storage = UNINITIALIZED, spec_x = 0, spec_y = 0, spec_z = 0,
      spec_width = 0, spec_height = 0, spec_depth = 0, spec_nchannels = 0,
      spec_format = 0, spec_deep = False, pixels = (\<lambda>k. 0)\<rparr>"

section \<open>Making a cache-backed ImageBuf writable\<close>

text \<open>
  \<^verbatim>\<open>void ensure_writable()\<close> of IteratorBase:
  \<^verbatim>\<open>if (OIIO_UNLIKELY(m_ib->storage() == IMAGECACHE)) make_writable();\<close>
  The member \<^verbatim>\<open>IteratorBase::make_writable\<close> is declared only and is the parameter
  \<open>it_make_writable\<close>.
\<close>

definition ensure_writable ::
  "('v IteratorBase \<Rightarrow> 'v IteratorBase) \<Rightarrow> 'v IteratorBase \<Rightarrow> 'v IteratorBase" where
  "ensure_writable it_make_writable it =
     (if storage (m_ib it) = IMAGECACHE then it_make_writable it else it)"

text \<open>
  Modelled from the spec: \<^verbatim>\<open>bool ImageBuf::make_writable(bool keep_cache_type)\<close>, which
  imagebuf.h declares and does not define. The spec: "no-op unless current mode is
  CacheBacked; otherwise performs a full read into freshly allocated local memory ...
  Returns failure only on allocation/read failure"; the header: "Return true if it works
  (including if no read was necessary)". The full read is the parameter \<open>full_read\<close>:
  from \<^verbatim>\<open>keep_cache_type\<close> and the buffer it gives the pixel data type and the pixel values
  of the local copy, or \<open>None\<close> when the allocation or the read fails. The result is the
  returned boolean and the buffer after the call.
\<close>

definition make_writable ::
  "(bool \<Rightarrow> 'v ImageBuf \<Rightarrow> (TypeDesc \<times> (int \<times> int \<times> int \<times> int \<Rightarrow> 'v)) option)
   \<Rightarrow> bool \<Rightarrow> 'v ImageBuf \<Rightarrow> bool \<times> 'v ImageBuf" where
  "make_writable full_read keep_cache_type ib =
     (if storage ib \<noteq> IMAGECACHE then (True, ib)
      else case full_read keep_cache_type ib of
             None \<Rightarrow> (False, ib)
           | Some (fmt, px) \<Rightarrow>
               (True, ib\<lparr>storage := LOCALBUFFER, spec_format := fmt, pixels := px\<rparr>))"

section \<open>Copying pixels between two buffers\<close>

text \<open>
  A region of interest, with the field names of the constructor call
  \<^verbatim>\<open>ROI(xbegin, xend, ybegin, yend, zbegin, zend, chbegin, chend)\<close> in \<^verbatim>\<open>range()\<close>; the
  pixel data window of a buffer with all its channels (\<^verbatim>\<open>roi()\<close>, "Return pixel data
  window for this ImageBuf as a ROI"); membership of a coordinate and channel; and the
  coordinates of a region in the order z, y, x, channel.
\<close>

record ROI =
  xbegin :: int
  xend :: int
  ybegin :: int
  yend :: int
  zbegin :: int
  zend :: int
  chbegin :: int
  chend :: int

definition get_roi :: "'v ImageBuf \<Rightarrow> ROI" where
  "get_roi ib =
     \<lparr>xbegin = spec_x ib, xend = spec_x ib + spec_width ib,
      ybegin = spec_y ib, yend = spec_y ib + spec_height ib,
      zbegin = spec_z ib, zend = spec_z ib + spec_depth ib,
      chbegin = 0, chend = spec_nchannels ib\<rparr>"

definition roi_contains :: "ROI \<Rightarrow> int \<times> int \<times> int \<times> int \<Rightarrow> bool" where
  "roi_contains R k =
     (case k of (x', y', z', c) \<Rightarrow>
        xbegin R \<le> x' \<and> x' < xend R \<and> ybegin R \<le> y' \<and> y' < yend R
        \<and> zbegin R \<le> z' \<and> z' < zend R \<and> chbegin R \<le> c \<and> c < chend R)"

definition roi_coords :: "ROI \<Rightarrow> (int \<times> int \<times> int \<times> int) list" where
  "roi_coords R =
     concat (map (\<lambda>z'. concat (map (\<lambda>y'. concat (map (\<lambda>x'.
        map (\<lambda>c. (x', y', z', c)) [chbegin R..chend R - 1])
        [xbegin R..xend R - 1])) [ybegin R..yend R - 1])) [zbegin R..zend R - 1])"

text \<open>
  Modelled from the spec: \<^verbatim>\<open>bool ImageBuf::copy_pixels(const ImageBuf& src)\<close>, which
  imagebuf.h declares and does not define. The spec: "copies only the overlapping
  region+channels of two buffers (zero-fills destination pixels absent from source,
  ignores source pixels absent from destination) with type conversion". The model walks
  the destination's data window and channels: a pixel value that the source has is
  converted from the source's data type to the destination's, one that it lacks is set to
  zero. The conversion of one value is the parameter \<open>convert\<close>. The spec does not say
  when the boolean result is false; the model gives the destination after the call.
\<close>

definition copy_pixels ::
  "(TypeDesc \<Rightarrow> TypeDesc \<Rightarrow> 'v \<Rightarrow> 'v) \<Rightarrow> 'v ImageBuf \<Rightarrow> 'v ImageBuf \<Rightarrow> ('v :: zero) ImageBuf"
  where
  "copy_pixels convert dst src =
     dst\<lparr>pixels :=
           fold (\<lambda>k px. px(k := (if roi_contains (get_roi src) k
                                  then convert (spec_format src) (spec_format dst) (pixels src k)
                                  else 0)))
                (roi_coords (get_roi dst)) (pixels dst)\<rparr>"

subsection \<open>A 4 x 4 source and a 2 x 2 destination\<close>

text \<open>
  One-channel images with the data window at the origin: a 4 x 4 image whose pixel
  \<open>(x, y)\<close> holds \<open>10 * y + x + 1\<close>, and a 2 x 2 image holding 99 everywhere. The
  cache-backed variant of the 4 x 2 image is read in full as ramp values.
\<close>

definition image_4x4 :: "int ImageBuf" where
  "image_4x4 =
     \<lparr>storage = LOCALBUFFER, spec_x = 0, spec_y = 0, spec_z = 0,
      spec_width = 4, spec_height = 4, spec_depth = 1, spec_nchannels = 1,
      spec_format = 1, spec_deep = False,
      pixels = (\<lambda>k. case k of (x', y', z', c) \<Rightarrow> 10 * y' + x' + 1)\<rparr>"

definition image_2x2 :: "int ImageBuf" where
  "image_2x2 =
     \<lparr>storage = LOCALBUFFER, spec_x = 0, spec_y = 0, spec_z = 0,
      spec_width = 2, spec_height = 2, spec_depth = 1, spec_nchannels = 1,
      spec_format = 1, spec_deep = False, pixels = (\<lambda>k. 99)\<rparr>"

definition read_ramp ::
  "bool \<Rightarrow> int ImageBuf \<Rightarrow> (TypeDesc \<times> (int \<times> int \<times> int \<times> int \<Rightarrow> int)) option" where
  "read_ramp keep_cache_type ib =
     Some (spec_format ib, (\<lambda>k. case k of (x', y', z', c) \<Rightarrow> 10 * y' + x' + 1))"

section \<open>Properties of the iterator\<close>

subsection \<open>What operator++ leaves unchanged, and where it goes\<close>

lemma pos_xincr_frame:
  assumes "repositions A"
  shows "same_range (pos_xincr A it) it \<and> m_x (pos_xincr A it) = m_x it
         \<and> m_y (pos_xincr A it) = m_y it \<and> m_z (pos_xincr A it) = m_z it
         \<and> m_valid (pos_xincr A it) = m_valid it"
  using assms
  by (auto simp: pos_xincr_def call_retile_def repositions_def same_range_def Let_def
           split: prod.splits)

lemma on_pixel_not_done: "on_pixel it \<Longrightarrow> \<not> iter_done it"
  by (simp add: on_pixel_def iter_done_def)

lemma operator_inc_coords:
  fixes it :: "'v IteratorBase"
  assumes A: "repositions A"
  defines "it' \<equiv> operator_inc A it"
  shows "same_range it' it"
    and "m_x it + 1 < m_rng_xend it \<Longrightarrow>
           m_x it' = m_x it + 1 \<and> m_y it' = m_y it \<and> m_z it' = m_z it
           \<and> m_valid it' = (if m_exists it then m_valid it
                              else valid_at it (m_x it + 1) (m_y it) (m_z it))"
    and "\<not> m_x it + 1 < m_rng_xend it \<Longrightarrow> m_y it + 1 < m_rng_yend it \<Longrightarrow>
           m_x it' = m_rng_xbegin it \<and> m_y it' = m_y it + 1 \<and> m_z it' = m_z it
           \<and> m_valid it' = valid_at it (m_rng_xbegin it) (m_y it + 1) (m_z it)"
    and "\<not> m_x it + 1 < m_rng_xend it \<Longrightarrow> \<not> m_y it + 1 < m_rng_yend it \<Longrightarrow>
           m_z it + 1 < m_rng_zend it \<Longrightarrow>
           m_x it' = m_rng_xbegin it \<and> m_y it' = m_rng_ybegin it \<and> m_z it' = m_z it + 1
           \<and> m_valid it' = valid_at it (m_rng_xbegin it) (m_rng_ybegin it) (m_z it + 1)"
    and "\<not> m_x it + 1 < m_rng_xend it \<Longrightarrow> \<not> m_y it + 1 < m_rng_yend it \<Longrightarrow>
           \<not> m_z it + 1 < m_rng_zend it \<Longrightarrow>
           m_x it' = m_rng_xbegin it \<and> m_y it' = m_rng_ybegin it \<and> m_z it' = m_z it + 1
           \<and> \<not> m_valid it'"
proof -
  note P = A [unfolded repositions_def, THEN conjunct1, rule_format]
  note F = pos_xincr_frame [OF A]
  show "same_range it' it"
    using P F [of "it\<lparr>m_x := m_x it + 1\<rparr>"]
    by (simp add: it'_def operator_inc_def Let_def same_range_def)
  show "m_x it + 1 < m_rng_xend it \<Longrightarrow>
           m_x it' = m_x it + 1 \<and> m_y it' = m_y it \<and> m_z it' = m_z it
           \<and> m_valid it' = (if m_exists it then m_valid it
                              else valid_at it (m_x it + 1) (m_y it) (m_z it))"
    using P F [of "it\<lparr>m_x := m_x it + 1\<rparr>"]
    by (simp add: it'_def operator_inc_def Let_def valid_at_def)
  show "\<not> m_x it + 1 < m_rng_xend it \<Longrightarrow> m_y it + 1 < m_rng_yend it \<Longrightarrow>
           m_x it' = m_rng_xbegin it \<and> m_y it' = m_y it + 1 \<and> m_z it' = m_z it
           \<and> m_valid it' = valid_at it (m_rng_xbegin it) (m_y it + 1) (m_z it)"
    using P by (simp add: it'_def operator_inc_def Let_def valid_at_def)
  show "\<not> m_x it + 1 < m_rng_xend it \<Longrightarrow> \<not> m_y it + 1 < m_rng_yend it \<Longrightarrow>
           m_z it + 1 < m_rng_zend it \<Longrightarrow>
           m_x it' = m_rng_xbegin it \<and> m_y it' = m_rng_ybegin it \<and> m_z it' = m_z it + 1
           \<and> m_valid it' = valid_at it (m_rng_xbegin it) (m_rng_ybegin it) (m_z it + 1)"
    using P by (simp add: it'_def operator_inc_def Let_def valid_at_def)
  show "\<not> m_x it + 1 < m_rng_xend it \<Longrightarrow> \<not> m_y it + 1 < m_rng_yend it \<Longrightarrow>
           \<not> m_z it + 1 < m_rng_zend it \<Longrightarrow>
           m_x it' = m_rng_xbegin it \<and> m_y it' = m_rng_ybegin it \<and> m_z it' = m_z it + 1
           \<and> \<not> m_valid it'"
    by (simp add: it'_def operator_inc_def Let_def)
qed

text \<open>From a pixel that is not the last of the range, operator++ goes to the next pixel.\<close>

lemma inc_step:
  assumes A: "repositions A" and on: "on_pixel it" and r: "0 < remaining it"
  shows "on_pixel (operator_inc A it) \<and> remaining (operator_inc A it) = remaining it - 1
         \<and> same_range (operator_inc A it) it"
proof -
  let ?it' = "operator_inc A it"
  note C = operator_inc_coords [OF A, of it]
  have sr: "same_range ?it' it" by (rule C(1))
  have v: "m_valid it" "m_rng_xbegin it \<le> m_x it" "m_x it < m_rng_xend it"
    "m_rng_ybegin it \<le> m_y it" "m_y it < m_rng_yend it"
    "m_rng_zbegin it \<le> m_z it" "m_z it < m_rng_zend it"
    using on by (simp_all add: on_pixel_def valid_at_def)
  consider (a) "m_x it + 1 < m_rng_xend it"
    | (b) "\<not> m_x it + 1 < m_rng_xend it" "m_y it + 1 < m_rng_yend it"
    | (c) "\<not> m_x it + 1 < m_rng_xend it" "\<not> m_y it + 1 < m_rng_yend it"
          "m_z it + 1 < m_rng_zend it"
    | (d) "\<not> m_x it + 1 < m_rng_xend it" "\<not> m_y it + 1 < m_rng_yend it"
          "\<not> m_z it + 1 < m_rng_zend it"
    by blast
  then show ?thesis
  proof cases
    case a
    from C(2) [OF a] sr v a show ?thesis
      by (simp add: on_pixel_def valid_at_def remaining_def same_range_def)
  next
    case b
    have x: "m_x it = m_rng_xend it - 1" using b v by simp
    from C(3) [OF b] sr v b x show ?thesis
      by (simp add: on_pixel_def valid_at_def remaining_def same_range_def algebra_simps)
  next
    case c
    have x: "m_x it = m_rng_xend it - 1" and y: "m_y it = m_rng_yend it - 1"
      using c v by simp_all
    from C(4) [OF c] sr v c x y show ?thesis
      by (simp add: on_pixel_def valid_at_def remaining_def same_range_def algebra_simps)
  next
    case d
    have "m_x it = m_rng_xend it - 1" "m_y it = m_rng_yend it - 1"
      "m_z it = m_rng_zend it - 1"
      using d v by simp_all
    then have "remaining it = 0" by (simp add: remaining_def)
    with r show ?thesis by simp
  qed
qed

lemma remaining_zero:
  assumes on: "on_pixel it" and r: "remaining it = 0"
  shows "m_x it = m_rng_xend it - 1 \<and> m_y it = m_rng_yend it - 1
         \<and> m_z it = m_rng_zend it - 1"
proof -
  have v: "m_rng_xbegin it \<le> m_x it" "m_x it < m_rng_xend it"
    "m_rng_ybegin it \<le> m_y it" "m_y it < m_rng_yend it"
    "m_rng_zbegin it \<le> m_z it" "m_z it < m_rng_zend it"
    using on by (simp_all add: on_pixel_def valid_at_def)
  define W where "W = m_rng_xend it - m_rng_xbegin it"
  define H where "H = m_rng_yend it - m_rng_ybegin it"
  define a where "a = m_rng_zend it - 1 - m_z it"
  define b where "b = m_rng_yend it - 1 - m_y it"
  define c where "c = m_rng_xend it - 1 - m_x it"
  have pos: "0 < W" "0 < H" "0 \<le> a" "0 \<le> b" "0 \<le> c"
    using v by (simp_all add: W_def H_def a_def b_def c_def)
  have eq: "a * (W * H) + b * W + c = 0"
    using r by (simp add: remaining_def W_def H_def a_def b_def c_def)
  have t1: "0 \<le> a * (W * H)" and t2: "0 \<le> b * W" using pos by simp_all
  from eq t1 t2 pos have z: "a * (W * H) = 0" "b * W = 0" "c = 0" by linarith+
  from z pos have "a = 0" "b = 0" by auto
  with z show ?thesis by (simp add: a_def b_def c_def)
qed

text \<open>From the last pixel of the range, operator++ goes to the done position.\<close>

lemma inc_last:
  assumes A: "repositions A" and on: "on_pixel it" and r: "remaining it = 0"
  shows "iter_done (operator_inc A it)"
proof -
  note C = operator_inc_coords [OF A, of it]
  from remaining_zero [OF on r]
  have d: "\<not> m_x it + 1 < m_rng_xend it" "\<not> m_y it + 1 < m_rng_yend it"
    "\<not> m_z it + 1 < m_rng_zend it"
    and z: "m_z it + 1 = m_rng_zend it"
    by simp_all
  from C(5) [OF d] C(1) z show ?thesis
    by (simp add: iter_done_def same_range_def)
qed

lemma walk:
  assumes A: "repositions A"
  shows "on_pixel it \<Longrightarrow> remaining it = int n \<Longrightarrow>
         (\<forall>k\<le>n. on_pixel ((operator_inc A ^^ k) it))
         \<and> iter_done ((operator_inc A ^^ Suc n) it)"
proof (induction n arbitrary: it)
  case 0
  then show ?case using inc_last [OF A] by simp
next
  case (Suc n)
  from inc_step [OF A Suc.prems(1)] Suc.prems(2)
  have on': "on_pixel (operator_inc A it)" and r': "remaining (operator_inc A it) = int n"
    by simp_all
  note IH = Suc.IH [OF on' r']
  have "\<forall>k\<le>Suc n. on_pixel ((operator_inc A ^^ k) it)"
  proof (intro allI impI)
    fix k assume k: "k \<le> Suc n"
    show "on_pixel ((operator_inc A ^^ k) it)"
    proof (cases k)
      case 0
      then show ?thesis using Suc.prems(1) by simp
    next
      case (Suc j)
      with k IH show ?thesis by (simp add: funpow_swap1)
    qed
  qed
  moreover have "iter_done ((operator_inc A ^^ Suc (Suc n)) it)"
    using IH by (simp add: funpow_swap1)
  ultimately show ?case by blast
qed

lemma first_pixel_remaining:
  assumes "at_first_pixel it"
  shows "on_pixel it" and "remaining it = range_pixels it - 1" and "0 < range_pixels it"
proof -
  show "on_pixel it"
    using assms by (simp add: at_first_pixel_def on_pixel_def valid_at_def)
  show "remaining it = range_pixels it - 1"
    using assms
    by (simp add: at_first_pixel_def remaining_def range_pixels_def algebra_simps)
  have "0 < m_rng_xend it - m_rng_xbegin it" "0 < m_rng_yend it - m_rng_ybegin it"
    "0 < m_rng_zend it - m_rng_zbegin it"
    using assms by (simp_all add: at_first_pixel_def)
  then show "0 < range_pixels it"
    unfolding range_pixels_def by (intro mult_pos_pos)
qed

text \<open>
  Started on the first pixel of a range of \<open>N\<close> pixels, the iterator is done after
  exactly \<open>N\<close> increments, and not before.
\<close>

lemma done_after_range_pixels:
  assumes A: "repositions A" and f: "at_first_pixel it"
    and k: "k \<le> nat (range_pixels it)"
  shows "iter_done ((operator_inc A ^^ k) it) \<longleftrightarrow> k = nat (range_pixels it)"
proof -
  note R = first_pixel_remaining [OF f]
  obtain n where n: "range_pixels it = int (Suc n)"
    using R(3) by (metis Suc_pred' int_nat_eq less_imp_le zero_less_nat_eq)
  have rem: "remaining it = int n" using R(2) n by simp
  note W = walk [OF A R(1) rem]
  have N: "nat (range_pixels it) = Suc n" using n by simp
  consider (before) "k \<le> n" | (at) "k = Suc n"
    using k N by linarith
  then show ?thesis
  proof cases
    case before
    with W have "on_pixel ((operator_inc A ^^ k) it)" by blast
    then show ?thesis using before N on_pixel_not_done by auto
  next
    case at
    with W N show ?thesis by simp
  qed
qed

lemma spec_api_repositions: "repositions (spec_api local_proxy rt)"
  by (auto simp: repositions_def spec_api_def spec_pos_def spec_pos_xincr_local_past_end_def
                 call_retile_def same_range_def Let_def split: prod.splits)

lemma iter_4x2_first: "at_first_pixel iter_4x2"
  by (simp add: at_first_pixel_def iter_4x2_def)

lemma iter_4x2_pixels: "range_pixels iter_4x2 = 8"
  by (simp add: range_pixels_def iter_4x2_def)

subsection \<open>done()\<close>

text \<open>
  C1 (as amended). \<^verbatim>\<open>done()\<close> holds if and only if \<^verbatim>\<open>valid()\<close> is false and the position is
  exactly (range x-begin, range y-begin, range z-end). When \<^verbatim>\<open>pos\<close> and
  \<^verbatim>\<open>pos_xincr_local_past_end\<close> do what the header and the spec say of them, an iterator
  started on the first pixel of a non-empty range of \<open>N\<close> pixels is done after exactly
  \<open>N\<close> increments: \<^verbatim>\<open>done()\<close> is false at the start and after each of the first \<open>N - 1\<close>
  increments, and true after the \<open>N\<close>-th. For the range x in [0,4), y in [0,2) of one
  plane, \<open>N = 8\<close>: incrementing 8 times reaches \<^verbatim>\<open>done()\<close> exactly once, on the 8th
  increment. Nothing is stated of a further \<^verbatim>\<open>operator++\<close> on an iterator that is
  done: it would enter \<^verbatim>\<open>pos_xincr\<close> outside the precondition that function asserts.
\<close>

theorem done_reached_after_last_pixel:
  "(iter_done j \<longleftrightarrow>
      (\<not> m_valid j \<and> m_x j = m_rng_xbegin j \<and> m_y j = m_rng_ybegin j
       \<and> m_z j = m_rng_zend j))
   \<and> (repositions A \<and> at_first_pixel it \<longrightarrow>
        (\<forall>k \<le> nat (range_pixels it).
           iter_done ((operator_inc A ^^ k) it) \<longleftrightarrow> k = nat (range_pixels it)))"
proof (intro conjI impI allI)
  show "iter_done j \<longleftrightarrow>
      (\<not> m_valid j \<and> m_x j = m_rng_xbegin j \<and> m_y j = m_rng_ybegin j
       \<and> m_z j = m_rng_zend j)"
    by (simp add: iter_done_def)
next
  fix k
  assume "repositions A \<and> at_first_pixel it" and "k \<le> nat (range_pixels it)"
  then show "iter_done ((operator_inc A ^^ k) it) \<longleftrightarrow> k = nat (range_pixels it)"
    using done_after_range_pixels by blast
qed

text \<open>
  The 4 x 2 range: not done at the start nor after 1 to 7 increments, done after the 8th.
\<close>

theorem done_reached_after_last_pixel_witness:
  "\<not> iter_done ((operator_inc api_4x2 ^^ 0) iter_4x2)
   \<and> \<not> iter_done ((operator_inc api_4x2 ^^ 1) iter_4x2)
   \<and> \<not> iter_done ((operator_inc api_4x2 ^^ 2) iter_4x2)
   \<and> \<not> iter_done ((operator_inc api_4x2 ^^ 3) iter_4x2)
   \<and> \<not> iter_done ((operator_inc api_4x2 ^^ 4) iter_4x2)
   \<and> \<not> iter_done ((operator_inc api_4x2 ^^ 5) iter_4x2)
   \<and> \<not> iter_done ((operator_inc api_4x2 ^^ 6) iter_4x2)
   \<and> \<not> iter_done ((operator_inc api_4x2 ^^ 7) iter_4x2)
   \<and> iter_done ((operator_inc api_4x2 ^^ 8) iter_4x2)"
proof -
  have A: "repositions api_4x2"
    unfolding api_4x2_def by (rule spec_api_repositions)
  have "\<forall>k \<le> nat (range_pixels iter_4x2).
          iter_done ((operator_inc api_4x2 ^^ k) iter_4x2) \<longleftrightarrow> k = nat (range_pixels iter_4x2)"
    using done_reached_after_last_pixel [of iter_4x2 api_4x2 iter_4x2] A iter_4x2_first
    by blast
  then have R: "k \<le> 8 \<Longrightarrow> iter_done ((operator_inc api_4x2 ^^ k) iter_4x2) \<longleftrightarrow> k = 8"
    for k
    by (simp add: iter_4x2_pixels)
  from R [of 0] R [of 1] R [of 2] R [of 3] R [of 4] R [of 5] R [of 6] R [of 7] R [of 8]
  show ?thesis by simp
qed

text \<open>
  Against C1 as stated ("reaches done() ... on the 9th increment"): over the range
  x in [0,4), y in [0,2), started on the first pixel, \<^verbatim>\<open>done()\<close> does not hold after 7
  increments and holds after the 8th, so the iteration is over before a 9th increment.
\<close>

theorem done_on_eighth_increment:
  "\<not> iter_done ((operator_inc api_4x2 ^^ 7) iter_4x2)
   \<and> iter_done ((operator_inc api_4x2 ^^ 8) iter_4x2)"
proof -
  have A: "repositions api_4x2"
    unfolding api_4x2_def by (rule spec_api_repositions)
  note D = done_after_range_pixels [OF A iter_4x2_first, unfolded iter_4x2_pixels]
  from D [of 7] D [of 8] show ?thesis by simp
qed

subsection \<open>operator++\<close>

text \<open>
  C2 (as amended). \<^verbatim>\<open>operator++\<close> increments x. If the new x is below the range's x-end
  and the previous position existed, \<^verbatim>\<open>pos_xincr\<close> runs: over local pixels, and over a
  cache-backed image that is not deep, it advances the proxy pointer by one pixel stride
  and changes nothing else, unless the new x is at or past the data window's x-end (local
  pixels: \<^verbatim>\<open>pos_xincr_local_past_end\<close> is called) or, cache-backed, at or past the data
  window's or the current tile's x-end or with no tile held (\<^verbatim>\<open>retile\<close> is called and
  \<^verbatim>\<open>m_exists\<close> is set to whether x is inside the data window); over a deep image without
  local pixels only x changes. If the new x is below the range's x-end and the previous
  position did not exist, a full \<^verbatim>\<open>pos\<close> call is made. If x overflows the row, x wraps to
  the range's x-begin and y advances (and, when y overflows, wraps to the range's y-begin
  with z advancing) through a full \<^verbatim>\<open>pos\<close> call; when z overflows too, no call is made and
  \<^verbatim>\<open>m_valid\<close> becomes false, and from the final z plane the position left is
  (range x-begin, range y-begin, range z-end).
\<close>

theorem operator_inc_paths:
  "let x1 = m_x it + 1;
       adv = it\<lparr>m_x := x1, m_proxydata := m_proxydata it + m_pixel_stride it\<rparr>;
       in_row = (x1 < m_rng_xend it);
       in_img = (x1 < m_img_xend it);
       in_tile = (x1 < m_tilexend it \<and> m_tile it \<noteq> None);
       r = operator_inc A it
   in (in_row \<and> m_exists it \<and> m_localpixels it \<and> in_img \<longrightarrow> r = adv)
    \<and> (in_row \<and> m_exists it \<and> m_localpixels it \<and> \<not> in_img \<longrightarrow>
          r = pos_xincr_local_past_end A adv)
    \<and> (in_row \<and> m_exists it \<and> \<not> m_localpixels it \<and> \<not> m_deep it \<and> in_img \<and> in_tile \<longrightarrow>
          r = adv)
    \<and> (in_row \<and> m_exists it \<and> \<not> m_localpixels it \<and> \<not> m_deep it
          \<and> \<not> (in_img \<and> in_tile) \<longrightarrow>
          r = (call_retile (retile A) in_img adv)\<lparr>m_exists := in_img\<rparr>)
    \<and> (in_row \<and> m_exists it \<and> \<not> m_localpixels it \<and> m_deep it \<longrightarrow> r = it\<lparr>m_x := x1\<rparr>)
    \<and> (in_row \<and> \<not> m_exists it \<longrightarrow> r = pos A x1 (m_y it) (m_z it) (it\<lparr>m_x := x1\<rparr>))
    \<and> (\<not> in_row \<and> m_y it + 1 < m_rng_yend it \<longrightarrow>
          r = pos A (m_rng_xbegin it) (m_y it + 1) (m_z it)
                (it\<lparr>m_x := m_rng_xbegin it, m_y := m_y it + 1\<rparr>))
    \<and> (\<not> in_row \<and> \<not> m_y it + 1 < m_rng_yend it \<and> m_z it + 1 < m_rng_zend it \<longrightarrow>
          r = pos A (m_rng_xbegin it) (m_rng_ybegin it) (m_z it + 1)
                (it\<lparr>m_x := m_rng_xbegin it, m_y := m_rng_ybegin it, m_z := m_z it + 1\<rparr>))
    \<and> (\<not> in_row \<and> \<not> m_y it + 1 < m_rng_yend it \<and> \<not> m_z it + 1 < m_rng_zend it \<longrightarrow>
          r = it\<lparr>m_x := m_rng_xbegin it, m_y := m_rng_ybegin it, m_z := m_z it + 1,
                 m_valid := False\<rparr>)
    \<and> (\<not> in_row \<and> \<not> m_y it + 1 < m_rng_yend it \<and> m_z it + 1 = m_rng_zend it \<longrightarrow>
          \<not> m_valid r \<and> m_x r = m_rng_xbegin it \<and> m_y r = m_rng_ybegin it
          \<and> m_z r = m_rng_zend it)"
  unfolding Let_def
proof (intro conjI impI)
  show "m_x it + 1 < m_rng_xend it \<and> m_exists it \<and> m_localpixels it
          \<and> m_x it + 1 < m_img_xend it \<Longrightarrow>
        operator_inc A it
          = it\<lparr>m_x := m_x it + 1, m_proxydata := m_proxydata it + m_pixel_stride it\<rparr>"
    by (simp add: operator_inc_def pos_xincr_def Let_def)
  show "m_x it + 1 < m_rng_xend it \<and> m_exists it \<and> m_localpixels it
          \<and> \<not> m_x it + 1 < m_img_xend it \<Longrightarrow>
        operator_inc A it
          = pos_xincr_local_past_end A
              (it\<lparr>m_x := m_x it + 1, m_proxydata := m_proxydata it + m_pixel_stride it\<rparr>)"
    by (simp add: operator_inc_def pos_xincr_def Let_def)
  show "m_x it + 1 < m_rng_xend it \<and> m_exists it \<and> \<not> m_localpixels it \<and> \<not> m_deep it
          \<and> m_x it + 1 < m_img_xend it
          \<and> (m_x it + 1 < m_tilexend it \<and> m_tile it \<noteq> None) \<Longrightarrow>
        operator_inc A it
          = it\<lparr>m_x := m_x it + 1, m_proxydata := m_proxydata it + m_pixel_stride it\<rparr>"
    by (auto simp add: operator_inc_def pos_xincr_def Let_def)
  show "m_x it + 1 < m_rng_xend it \<and> m_exists it \<and> \<not> m_localpixels it \<and> \<not> m_deep it
          \<and> \<not> (m_x it + 1 < m_img_xend it
                \<and> (m_x it + 1 < m_tilexend it \<and> m_tile it \<noteq> None)) \<Longrightarrow>
        operator_inc A it
          = (call_retile (retile A) (m_x it + 1 < m_img_xend it)
               (it\<lparr>m_x := m_x it + 1, m_proxydata := m_proxydata it + m_pixel_stride it\<rparr>))
            \<lparr>m_exists := m_x it + 1 < m_img_xend it\<rparr>"
    by (auto simp add: operator_inc_def pos_xincr_def Let_def)
  show "m_x it + 1 < m_rng_xend it \<and> m_exists it \<and> \<not> m_localpixels it \<and> m_deep it \<Longrightarrow>
        operator_inc A it = it\<lparr>m_x := m_x it + 1\<rparr>"
    by (simp add: operator_inc_def pos_xincr_def Let_def)
  show "m_x it + 1 < m_rng_xend it \<and> \<not> m_exists it \<Longrightarrow>
        operator_inc A it = pos A (m_x it + 1) (m_y it) (m_z it) (it\<lparr>m_x := m_x it + 1\<rparr>)"
    by (simp add: operator_inc_def Let_def)
  show "\<not> m_x it + 1 < m_rng_xend it \<and> m_y it + 1 < m_rng_yend it \<Longrightarrow>
        operator_inc A it
          = pos A (m_rng_xbegin it) (m_y it + 1) (m_z it)
              (it\<lparr>m_x := m_rng_xbegin it, m_y := m_y it + 1\<rparr>)"
    by (simp add: operator_inc_def Let_def)
  show "\<not> m_x it + 1 < m_rng_xend it \<and> \<not> m_y it + 1 < m_rng_yend it
          \<and> m_z it + 1 < m_rng_zend it \<Longrightarrow>
        operator_inc A it
          = pos A (m_rng_xbegin it) (m_rng_ybegin it) (m_z it + 1)
              (it\<lparr>m_x := m_rng_xbegin it, m_y := m_rng_ybegin it, m_z := m_z it + 1\<rparr>)"
    by (simp add: operator_inc_def Let_def)
  show "\<not> m_x it + 1 < m_rng_xend it \<and> \<not> m_y it + 1 < m_rng_yend it
          \<and> \<not> m_z it + 1 < m_rng_zend it \<Longrightarrow>
        operator_inc A it
          = it\<lparr>m_x := m_rng_xbegin it, m_y := m_rng_ybegin it, m_z := m_z it + 1,
                m_valid := False\<rparr>"
    by (simp add: operator_inc_def Let_def)
  assume last: "\<not> m_x it + 1 < m_rng_xend it \<and> \<not> m_y it + 1 < m_rng_yend it
          \<and> m_z it + 1 = m_rng_zend it"
  then have r: "operator_inc A it
          = it\<lparr>m_x := m_rng_xbegin it, m_y := m_rng_ybegin it, m_z := m_z it + 1,
                m_valid := False\<rparr>"
    by (simp add: operator_inc_def Let_def)
  show "\<not> m_valid (operator_inc A it)" by (simp add: r)
  show "m_x (operator_inc A it) = m_rng_xbegin it" by (simp add: r)
  show "m_y (operator_inc A it) = m_rng_ybegin it" by (simp add: r)
  show "m_z (operator_inc A it) = m_rng_zend it" using last by (simp add: r)
qed

text \<open>
  The paths of \<^verbatim>\<open>operator++\<close> on the 4 x 2 image: the pointer-only step over local
  pixels and inside a cache tile, the retile at the tile's x-end, the step over a deep
  image, the wrap to the next scanline, and the step off the last pixel.
\<close>

theorem operator_inc_paths_witness:
  "operator_inc api_4x2 iter_4x2 = iter_4x2\<lparr>m_x := 1, m_proxydata := 4100\<rparr>
   \<and> operator_inc api_4x2 iter_cached_4x2 = iter_cached_4x2\<lparr>m_x := 1, m_proxydata := 4100\<rparr>
   \<and> operator_inc api_4x2 (iter_cached_4x2\<lparr>m_x := 1\<rparr>)
       = iter_cached_4x2\<lparr>m_x := 2, m_proxydata := 0\<rparr>
   \<and> operator_inc api_4x2 iter_deep_4x2 = iter_deep_4x2\<lparr>m_x := 1\<rparr>
   \<and> operator_inc api_4x2 (iter_4x2\<lparr>m_exists := False\<rparr>)
       = iter_4x2\<lparr>m_x := 1, m_proxydata := 4100\<rparr>
   \<and> operator_inc api_4x2 (iter_4x2\<lparr>m_x := 3\<rparr>)
       = iter_4x2\<lparr>m_x := 0, m_y := 1, m_proxydata := 4112\<rparr>
   \<and> operator_inc api_4x2 (iter_4x2\<lparr>m_x := 3, m_y := 1\<rparr>)
       = iter_4x2\<lparr>m_x := 0, m_y := 0, m_z := 1, m_valid := False\<rparr>"
  using operator_inc_paths [of iter_4x2 api_4x2, unfolded Let_def]
    operator_inc_paths [of iter_cached_4x2 api_4x2, unfolded Let_def]
    operator_inc_paths [of "iter_cached_4x2\<lparr>m_x := 1\<rparr>" api_4x2, unfolded Let_def]
    operator_inc_paths [of iter_deep_4x2 api_4x2, unfolded Let_def]
    operator_inc_paths [of "iter_4x2\<lparr>m_exists := False\<rparr>" api_4x2, unfolded Let_def]
    operator_inc_paths [of "iter_4x2\<lparr>m_x := 3\<rparr>" api_4x2, unfolded Let_def]
    operator_inc_paths [of "iter_4x2\<lparr>m_x := 3, m_y := 1\<rparr>" api_4x2, unfolded Let_def]
  by (simp add: iter_4x2_def iter_cached_4x2_def iter_deep_4x2_def api_4x2_def spec_api_def
                spec_pos_def call_retile_def valid_at_def exists_at_def Let_def)

text \<open>
  Against C2 as stated ("it advances ... the proxy pointer by one pixel stride"): over a
  deep image without local pixels the previous position exists and the new x is below the
  range's x-end, yet the proxy pointer is left where it was, one pixel stride (4 bytes)
  short of where the claim puts it.
\<close>

theorem operator_inc_deep_keeps_proxy:
  "m_exists iter_deep_4x2
   \<and> m_x iter_deep_4x2 + 1 < m_rng_xend iter_deep_4x2
   \<and> m_pixel_stride iter_deep_4x2 = 4
   \<and> m_proxydata (operator_inc api_4x2 iter_deep_4x2) = m_proxydata iter_deep_4x2
   \<and> m_proxydata (operator_inc api_4x2 iter_deep_4x2)
       \<noteq> m_proxydata iter_deep_4x2 + m_pixel_stride iter_deep_4x2"
  by (simp add: operator_inc_def pos_xincr_def iter_deep_4x2_def iter_4x2_def Let_def)

section \<open>Properties of setpixel by linear index\<close>

text \<open>
  C10 (as amended). For a buffer of positive width and a nonnegative linear index \<open>i\<close>,
  the overload \<^verbatim>\<open>setpixel(i, pixel)\<close> is the call of the four-coordinate \<^verbatim>\<open>setpixel\<close> at
  \<open>(spec().x + i % width, spec().y + i / width, 0)\<close>, where \<open>%\<close> and \<open>/\<close> agree with
  \<open>mod\<close> and \<open>div\<close>. The z coordinate is the constant 0 whatever the depth of the image,
  x is inside the data window's x range, and for \<open>i \<ge> width * height\<close> the y coordinate
  is at or past the data window's y-end \<open>spec().y + height\<close>: the index runs over rows
  past the window instead of into the next z plane.
\<close>

theorem setpixel_i_coordinates:
  "0 \<le> i \<and> 0 < spec_width ib \<longrightarrow>
     setpixel_i sp i px ib
       = Some (sp (spec_x ib + i smod spec_width ib) (spec_y ib + i sdiv spec_width ib) 0 px ib)
     \<and> i smod spec_width ib = i mod spec_width ib
     \<and> i sdiv spec_width ib = i div spec_width ib
     \<and> spec_x ib \<le> spec_x ib + i smod spec_width ib
     \<and> spec_x ib + i smod spec_width ib < spec_x ib + spec_width ib
     \<and> (spec_width ib * spec_height ib \<le> i \<longrightarrow>
          spec_y ib + spec_height ib \<le> spec_y ib + i sdiv spec_width ib)"
proof (intro impI)
  assume h: "0 \<le> i \<and> 0 < spec_width ib"
  let ?w = "spec_width ib"
  have m: "i smod ?w = i mod ?w"
    using h by (simp add: signed_modulo_int_def sgn_if)
  have d: "i sdiv ?w = i div ?w"
    using h by (simp add: signed_divide_int_def sgn_if)
  have call: "setpixel_i sp i px ib
       = Some (sp (spec_x ib + i smod ?w) (spec_y ib + i sdiv ?w) 0 px ib)"
    using h by (simp add: setpixel_i_def setpixel_xy_def)
  have lo: "0 \<le> i mod ?w" and hi: "i mod ?w < ?w"
    using h by simp_all
  have past: "spec_height ib \<le> i div ?w" if "?w * spec_height ib \<le> i"
  proof -
    have "(?w * spec_height ib) div ?w \<le> i div ?w"
      using that h by (intro zdiv_mono1) simp_all
    then show ?thesis using h by simp
  qed
  show "setpixel_i sp i px ib
       = Some (sp (spec_x ib + i smod ?w) (spec_y ib + i sdiv ?w) 0 px ib)
     \<and> i smod ?w = i mod ?w
     \<and> i sdiv ?w = i div ?w
     \<and> spec_x ib \<le> spec_x ib + i smod ?w
     \<and> spec_x ib + i smod ?w < spec_x ib + ?w
     \<and> (?w * spec_height ib \<le> i \<longrightarrow>
          spec_y ib + spec_height ib \<le> spec_y ib + i sdiv ?w)"
    using call m d lo hi past by simp
qed

text \<open>
  On the 4 x 2 image, index 9 is one past the 8 pixels of the plane: the value goes to
  \<open>(1, 2, 0)\<close>, a row past the data window (y in [0,2)), in plane 0.
\<close>

theorem setpixel_i_coordinates_witness:
  "setpixel_i store_channel0 9 (5::int) image_4x2 = Some (store_channel0 1 2 0 5 image_4x2)
   \<and> spec_y image_4x2 + spec_height image_4x2 \<le> 2"
  using setpixel_i_coordinates [of 9 image_4x2 store_channel0 5]
  by (simp add: image_4x2_def)

text \<open>
  Against C10 as stated ("for every buffer"): on a default-constructed buffer the width
  is 0, \<^verbatim>\<open>i % spec().width\<close> and \<^verbatim>\<open>i / spec().width\<close> divide by zero, and the call has
  no defined behaviour: no pixel is written at any coordinates.
\<close>

theorem setpixel_i_zero_width:
  "spec_width image_default = 0
   \<and> setpixel_i store_channel0 0 (5::int) image_default = None"
  by (simp add: setpixel_i_def image_default_def)

section \<open>Properties of make_writable\<close>

text \<open>
  C3. \<^verbatim>\<open>make_writable\<close> returns true and leaves the buffer as it is whenever the storage
  is not \<^verbatim>\<open>IMAGECACHE\<close> (and \<^verbatim>\<open>ensure_writable\<close> of an iterator then does nothing). On an
  \<^verbatim>\<open>IMAGECACHE\<close> buffer whose full read succeeds it returns true with the storage turned
  to \<^verbatim>\<open>LOCALBUFFER\<close> and the pixels those that were read. It is idempotent: after a call
  that returned true, a second call returns true and leaves the buffer, pixels included,
  as the first call left it. It returns false only when the storage is \<^verbatim>\<open>IMAGECACHE\<close>
  and the allocation or the read fails.
\<close>

theorem make_writable_idempotent:
  "(storage ib \<noteq> IMAGECACHE \<longrightarrow> make_writable full_read k ib = (True, ib))
   \<and> (storage ib = IMAGECACHE \<and> full_read k ib = Some (fmt, px) \<longrightarrow>
        make_writable full_read k ib
          = (True, ib\<lparr>storage := LOCALBUFFER, spec_format := fmt, pixels := px\<rparr>))
   \<and> (fst (make_writable full_read k ib) \<longrightarrow>
        make_writable full_read k' (snd (make_writable full_read k ib))
          = (True, snd (make_writable full_read k ib))
        \<and> pixels (snd (make_writable full_read k' (snd (make_writable full_read k ib))))
          = pixels (snd (make_writable full_read k ib)))
   \<and> (\<not> fst (make_writable full_read k ib) \<longrightarrow>
        storage ib = IMAGECACHE \<and> full_read k ib = None)
   \<and> (storage (m_ib it) \<noteq> IMAGECACHE \<longrightarrow> ensure_writable it_make_writable it = it)"
proof (intro conjI impI)
  show "storage ib \<noteq> IMAGECACHE \<Longrightarrow> make_writable full_read k ib = (True, ib)"
    by (simp add: make_writable_def)
  show "storage ib = IMAGECACHE \<and> full_read k ib = Some (fmt, px) \<Longrightarrow>
        make_writable full_read k ib
          = (True, ib\<lparr>storage := LOCALBUFFER, spec_format := fmt, pixels := px\<rparr>)"
    by (simp add: make_writable_def)
  have local: "storage (snd (make_writable full_read k ib)) \<noteq> IMAGECACHE"
    if "fst (make_writable full_read k ib)"
    using that by (auto simp: make_writable_def split: if_splits option.splits)
  show again: "make_writable full_read k' (snd (make_writable full_read k ib))
          = (True, snd (make_writable full_read k ib))"
    if "fst (make_writable full_read k ib)"
    using local [OF that] by (simp add: make_writable_def)
  show "pixels (snd (make_writable full_read k' (snd (make_writable full_read k ib))))
          = pixels (snd (make_writable full_read k ib))"
    if "fst (make_writable full_read k ib)"
    using again [OF that] by simp
  show "storage ib = IMAGECACHE" if "\<not> fst (make_writable full_read k ib)"
    using that by (auto simp: make_writable_def split: if_splits)
  show "full_read k ib = None" if "\<not> fst (make_writable full_read k ib)"
    using that by (auto simp: make_writable_def split: if_splits option.splits)
  show "storage (m_ib it) \<noteq> IMAGECACHE \<Longrightarrow> ensure_writable it_make_writable it = it"
    by (simp add: ensure_writable_def)
qed

text \<open>
  The 4 x 2 image: in local memory it is left alone; cache-backed, the first call reads
  it into local memory and the second changes nothing; with a read that fails the call
  returns false.
\<close>

theorem make_writable_idempotent_witness:
  "make_writable read_ramp False image_4x2 = (True, image_4x2)
   \<and> fst (make_writable read_ramp False (image_4x2\<lparr>storage := IMAGECACHE\<rparr>))
   \<and> storage (snd (make_writable read_ramp False (image_4x2\<lparr>storage := IMAGECACHE\<rparr>)))
       = LOCALBUFFER
   \<and> pixels (snd (make_writable read_ramp False (image_4x2\<lparr>storage := IMAGECACHE\<rparr>)))
       (3, 1, 0, 0) = 14
   \<and> make_writable read_ramp False
       (snd (make_writable read_ramp False (image_4x2\<lparr>storage := IMAGECACHE\<rparr>)))
       = (True, snd (make_writable read_ramp False (image_4x2\<lparr>storage := IMAGECACHE\<rparr>)))
   \<and> \<not> fst (make_writable (\<lambda>k ib. None) False (image_4x2\<lparr>storage := IMAGECACHE\<rparr>))"
proof -
  let ?c = "image_4x2\<lparr>storage := IMAGECACHE\<rparr>"
  let ?px = "\<lambda>k :: int \<times> int \<times> int \<times> int. case k of (x', y', z', c) \<Rightarrow> 10 * y' + x' + 1"
  have l: "storage image_4x2 \<noteq> IMAGECACHE" and c: "storage ?c = IMAGECACHE"
    by (simp_all add: image_4x2_def)
  have r: "read_ramp False ?c = Some (spec_format ?c, ?px)"
    by (simp add: read_ramp_def)
  note T1 = make_writable_idempotent [of image_4x2 read_ramp False]
  note T2 = make_writable_idempotent [of ?c read_ramp False "spec_format ?c" ?px False]
  from T1 l have a: "make_writable read_ramp False image_4x2 = (True, image_4x2)"
    by blast
  from T2 c r have b: "make_writable read_ramp False ?c
      = (True, ?c\<lparr>storage := LOCALBUFFER, spec_format := spec_format ?c, pixels := ?px\<rparr>)"
    by blast
  then have f: "fst (make_writable read_ramp False ?c)" by simp
  from T2 f have d: "make_writable read_ramp False (snd (make_writable read_ramp False ?c))
       = (True, snd (make_writable read_ramp False ?c))"
    by blast
  have e: "\<not> fst (make_writable (\<lambda>k ib. None) False ?c)"
    using c by (simp add: make_writable_def)
  have g: "storage (snd (make_writable read_ramp False ?c)) = LOCALBUFFER"
    "pixels (snd (make_writable read_ramp False ?c)) (3, 1, 0, 0) = 14"
    by (simp_all add: b)
  from a f g d e show ?thesis by blast
qed

section \<open>Properties of copy_pixels\<close>

lemma fold_fun_upd:
  "fold (\<lambda>k px. px(k := g k)) ks f = (\<lambda>k. if k \<in> set ks then g k else f k)"
proof (induction ks arbitrary: f)
  case Nil
  show ?case by simp
next
  case (Cons a ks)
  have "fold (\<lambda>k px. px(k := g k)) (a # ks) f = fold (\<lambda>k px. px(k := g k)) ks (f(a := g a))"
    by simp
  also have "\<dots> = (\<lambda>k. if k \<in> set ks then g k else (f(a := g a)) k)"
    by (rule Cons.IH)
  also have "\<dots> = (\<lambda>k. if k \<in> set (a # ks) then g k else f k)"
    by (auto simp: fun_eq_iff)
  finally show ?case .
qed

lemma set_roi_coords: "k \<in> set (roi_coords R) \<longleftrightarrow> roi_contains R k"
proof (cases k)
  case (fields x' y' z' c)
  show ?thesis
    unfolding fields roi_coords_def roi_contains_def
    by (simp add: image_iff)
qed

text \<open>
  C4. After \<^verbatim>\<open>copy_pixels(src)\<close>, a value of the destination inside the destination's data
  window and channels is the source's value at the same coordinate and channel, converted
  from the source's data type to the destination's, when the source's data window and
  channels hold it, and zero when they do not. Nothing else is copied: values of the
  destination outside its data window and channels, and the rest of the destination,
  are as before.
\<close>

theorem copy_pixels_overlap:
  "pixels (copy_pixels convert dst src) k =
     (if roi_contains (get_roi dst) k then
        (if roi_contains (get_roi src) k
         then convert (spec_format src) (spec_format dst) (pixels src k) else 0)
      else pixels dst k)
   \<and> (copy_pixels convert dst src)\<lparr>pixels := pixels dst\<rparr> = dst"
  by (simp add: copy_pixels_def fold_fun_upd set_roi_coords)

text \<open>
  From the 4 x 4 source into the 2 x 2 destination only the overlapping 2 x 2 region is
  copied, the source pixel (2,0) is not; from the 2 x 2 image into the 4 x 4 one the
  pixels outside the overlap, such as (3,3), are set to zero. The conversion is the
  identity here, source and destination having the same data type.
\<close>

theorem copy_pixels_overlap_witness:
  "pixels (copy_pixels (\<lambda>s d v. v) image_2x2 image_4x4) (0, 0, 0, 0) = 1
   \<and> pixels (copy_pixels (\<lambda>s d v. v) image_2x2 image_4x4) (1, 0, 0, 0) = 2
   \<and> pixels (copy_pixels (\<lambda>s d v. v) image_2x2 image_4x4) (0, 1, 0, 0) = 11
   \<and> pixels (copy_pixels (\<lambda>s d v. v) image_2x2 image_4x4) (1, 1, 0, 0) = 12
   \<and> pixels (copy_pixels (\<lambda>s d v. v) image_2x2 image_4x4) (2, 0, 0, 0) = 99
   \<and> pixels (copy_pixels (\<lambda>s d v. v) image_4x4 image_2x2) (1, 1, 0, 0) = 99
   \<and> pixels (copy_pixels (\<lambda>s d v. v) image_4x4 image_2x2) (3, 3, 0, 0) = 0"
  using copy_pixels_overlap [of "\<lambda>s d v. v" image_2x2 image_4x4 "(0, 0, 0, 0)"]
    copy_pixels_overlap [of "\<lambda>s d v. v" image_2x2 image_4x4 "(1, 0, 0, 0)"]
    copy_pixels_overlap [of "\<lambda>s d v. v" image_2x2 image_4x4 "(0, 1, 0, 0)"]
    copy_pixels_overlap [of "\<lambda>s d v. v" image_2x2 image_4x4 "(1, 1, 0, 0)"]
    copy_pixels_overlap [of "\<lambda>s d v. v" image_2x2 image_4x4 "(2, 0, 0, 0)"]
    copy_pixels_overlap [of "\<lambda>s d v. v" image_4x4 image_2x2 "(1, 1, 0, 0)"]
    copy_pixels_overlap [of "\<lambda>s d v. v" image_4x4 image_2x2 "(3, 3, 0, 0)"]
  by (simp add: image_2x2_def image_4x4_def get_roi_def roi_contains_def)

end
